theory Spec2Isabelle
  imports Main "HOL-Library.Word" "HOL-Library.List_Lexorder" "HOL-Library.Char_ord"
begin

unbundle bit_operations_syntax

section \<open>The ciao controller datastore: data model\<close>

text \<open>
  The datastore package keeps every table of the controller in memory and mirrors
  mutations to a persistent store. The embedding passes the cache explicitly (a record
  of maps), takes the persistent store as a record of stubs (each method answers with
  an optional error), and takes clock readings and generated uuids as arguments.
\<close>

subsection \<open>Errors\<close>

datatype error =
    ErrNoTenant
  | ErrNoBlockData
  | ErrNoStorageAttachment
  | ErrWorkloadInUse
  | ErrWorkloadNotFound
  | ErrTenantNotFound
  | ErrInstanceNotFound
  | ErrPoolNotFound
  | ErrPoolNotEmpty
  | ErrPoolEmpty
  | ErrDuplicateSubnet
  | ErrDuplicateIP
  | ErrInvalidIP
  | ErrSubnetTooSmall
  | ErrInvalidPoolAddress
  | ErrAddressNotFound
  | ErrNoImage
  | ErrNew string
  | ErrStore string
  | Wrap error string
  | Panic

text \<open>
  \<open>ErrNew msg\<close> is \<open>errors.New(msg)\<close> (also a parse error of the net package),
  \<open>ErrStore msg\<close> an error of the persistent store's own, \<open>Wrap e msg\<close> is
  \<open>errors.Wrap(e, msg)\<close>. \<open>Panic\<close> is not an error value of the source: it marks a
  run that ends in a run-time panic (a nil dereference), which unwinds through the
  callers. \<open>errors.Wrap\<close> is nil on a nil error; a panic is never wrapped.
\<close>

definition Wrapf :: "error option \<Rightarrow> string \<Rightarrow> error option" where
  "Wrapf err msg =
     (case err of None \<Rightarrow> None | Some Panic \<Rightarrow> Some Panic | Some e \<Rightarrow> Some (Wrap e msg))"

subsection \<open>Usage history\<close>

text \<open>
  Modelled from the spec: \<open>types.CiaoUsage\<close> is declared outside the files at hand; it is
  a sample (timestamp, VCPU, Memory, Disk). The counters are Go \<open>int\<close>s (64 bits, addition
  wraps). A timestamp is the clock reading in nanoseconds.
\<close>

record CiaoUsage =
  VCPU :: "64 word"
  Memory :: "64 word"
  Disk :: "64 word"
  Timestamp :: int

definition zeroUsage :: CiaoUsage where
  "zeroUsage = \<lparr>VCPU = 0, Memory = 0, Disk = 0, Timestamp = 0\<rparr>"

definition tenantUsagePeriodMinutes :: int where
  "tenantUsagePeriodMinutes = 5"

text \<open>
  \<open>time.Since(t)\<close> is a \<open>Duration\<close>: the difference in nanoseconds as an int64,
  saturated at both ends.
\<close>

definition Since :: "int \<Rightarrow> int \<Rightarrow> int" where
  "Since now t = max (- (2 ^ 63)) (min (2 ^ 63 - 1) (now - t))"

text \<open>
  \<open>d.Minutes() < tenantUsagePeriodMinutes\<close> compares a float64, computed as the whole
  minutes of \<open>d\<close> plus the remaining nanoseconds over \<open>6e10\<close>. The fraction is below one,
  so the test holds exactly when \<open>d\<close> is below the period in nanoseconds.
\<close>

definition MinutesBelowPeriod :: "int \<Rightarrow> bool" where
  "MinutesBelowPeriod d = (d < tenantUsagePeriodMinutes * 60000000000)"

definition updateTenantUsageNeeded :: "CiaoUsage \<Rightarrow> string \<Rightarrow> bool" where
  "updateTenantUsageNeeded delta tenantID =
     (if VCPU delta = 0 \<and> Memory delta = 0 \<and> Disk delta = 0 then False else True)"

text \<open>
  \<open>updateTenantUsage\<close> on the \<open>tenantUsage\<close> table. The clock is read twice: by
  \<open>time.Since\<close> (\<open>sinceNow\<close>) and then by \<open>time.Now\<close> (\<open>now\<close>).
\<close>

definition updateTenantUsage ::
  "int \<Rightarrow> int \<Rightarrow> CiaoUsage \<Rightarrow> string \<Rightarrow> (string \<rightharpoonup> CiaoUsage list) \<Rightarrow> (string \<rightharpoonup> CiaoUsage list)" where
  "updateTenantUsage sinceNow now delta tenantID tu =
     (if updateTenantUsageNeeded delta tenantID = False then tu
      else
        let tenantUsage = (case tu tenantID of None \<Rightarrow> [] | Some us \<Rightarrow> us);
            lastUsage = (if length tenantUsage \<noteq> 0 then last tenantUsage else zeroUsage);
            createNewUsage =
              (if length tenantUsage \<noteq> 0 \<and> MinutesBelowPeriod (Since sinceNow (Timestamp lastUsage))
               then False else True);
            newUsage = \<lparr>VCPU = VCPU lastUsage + VCPU delta,
                        Memory = Memory lastUsage + Memory delta,
                        Disk = Disk lastUsage + Disk delta,
                        Timestamp = 0\<rparr>
        in if createNewUsage = True
           then tu(tenantID \<mapsto> tenantUsage @ [newUsage\<lparr>Timestamp := now\<rparr>])
           else tu(tenantID \<mapsto>
                  tenantUsage[length tenantUsage - 1 := newUsage\<lparr>Timestamp := Timestamp lastUsage\<rparr>]))"

text \<open>The history of a tenant; a missing key reads as the empty slice.\<close>

definition history :: "(string \<rightharpoonup> CiaoUsage list) \<Rightarrow> string \<Rightarrow> CiaoUsage list" where
  "history tu tenantID = (case tu tenantID of None \<Rightarrow> [] | Some us \<Rightarrow> us)"

text \<open>Consecutive samples are at least one period (in nanoseconds) apart.\<close>

fun spaced :: "CiaoUsage list \<Rightarrow> bool" where
  "spaced (a # b # us) = (Timestamp a + 300000000000 \<le> Timestamp b \<and> spaced (b # us))"
| "spaced us = True"

subsection \<open>Entities\<close>

text \<open>
  Modelled from the spec: the structs of package \<open>types\<close> and \<open>payloads\<close> are declared
  outside the files at hand. Each record holds the fields the functions below read or
  write, under the field names the source uses (prefixed, since record fields share one
  name space). A volume's state is Available, InUse or another state.
\<close>

type_synonym ip4 = "32 word"

datatype Visibility = Private | Public | Internal

datatype BlockState = Available | InUse | OtherState string

record Workload =
  wl_ID :: string
  wl_TenantID :: string
  wl_Visibility :: Visibility

record Image =
  img_ID :: string
  img_TenantID :: string
  img_Name :: string
  img_Visibility :: Visibility

record Instance =
  i_ID :: string
  i_TenantID :: string
  i_WorkloadID :: string
  i_IPAddress :: string

record Volume =
  v_ID :: string
  v_TenantID :: string
  v_State :: BlockState


record StorageAttachment =
  a_ID :: string
  a_InstanceID :: string
  a_BlockID :: string
  a_Ephemeral :: bool
  a_Boot :: bool


record ExternalSubnet =
  es_ID :: string
  es_CIDR :: string

record ExternalIP =
  ei_ID :: string
  ei_Address :: string

record Pool =
  p_ID :: string
  p_Name :: string
  p_Free :: int
  p_TotalIPs :: int
  p_Subnets :: "ExternalSubnet list"
  p_IPs :: "ExternalIP list"

record MappedIP =
  m_ID :: string
  m_ExternalIP :: string
  m_InternalIP :: string
  m_InstanceID :: string
  m_TenantID :: string
  m_PoolID :: string
  m_PoolName :: string


text \<open>The key of \<open>instanceVolumes\<close>: \<open>attachment{instanceID, volumeID}\<close>.\<close>

type_synonym attachment = "string \<times> string"

text \<open>\<open>tenantIP{subnet, host}\<close>: a claimed address with the subnet it was taken from.\<close>

datatype tenantIP = TenantIP (ip_subnet: ip4) (ip_host: ip4)

text \<open>
  A tenant: \<open>SubnetBits\<close> of the embedded \<open>types.Tenant\<close>, the network controller
  handle \<open>CNCIctrl\<close> (nil, or an object whose \<open>WaitForActive\<close> answers for a subnet
  given as network number and prefix length), and the tenant's own maps and lists.
  \<open>network\<close> maps a subnet to the map of its hosts in use.
\<close>

record tenant =
  t_ID :: string
  t_SubnetBits :: int
  CNCIctrl :: "(ip4 \<times> nat \<Rightarrow> error option) option"
  network :: "ip4 \<rightharpoonup> (ip4 \<rightharpoonup> bool)"
  devices :: "string \<rightharpoonup> Volume"
  t_workloads :: "string list"
  t_images :: "string list"

subsection \<open>The cache and the persistent store\<close>

text \<open>The tables of \<open>Datastore\<close> that the functions below touch; locks are left out.\<close>

record Datastore =
  tenants :: "string \<rightharpoonup> tenant"
  instances :: "string \<rightharpoonup> Instance"
  blockDevices :: "string \<rightharpoonup> Volume"
  attachments :: "string \<rightharpoonup> StorageAttachment"
  instanceVolumes :: "attachment \<rightharpoonup> string"
  pools :: "string \<rightharpoonup> Pool"
  externalSubnets :: "string \<rightharpoonup> bool"
  externalIPs :: "string \<rightharpoonup> bool"
  mappedIPs :: "string \<rightharpoonup> MappedIP"
  images :: "string \<rightharpoonup> Image"
  publicImages :: "string list"
  internalImages :: "string list"
  workloads :: "string \<rightharpoonup> Workload"
  publicWorkloads :: "string list"

text \<open>
  The \<open>persistentStore\<close> interface as stubs: each method answers nil (\<open>None\<close>) or
  an error; \<open>getTenant\<close> answers a tenant pointer (possibly nil) and an error.
\<close>

record persistentStore =
  db_getTenant :: "string \<Rightarrow> tenant option \<times> error option"
  db_deleteTenant :: "string \<Rightarrow> error option"
  db_claimTenantIPs :: "string \<Rightarrow> tenantIP list \<Rightarrow> error option"
  db_addWorkload :: "Workload \<Rightarrow> error option"
  db_deleteWorkload :: "string \<Rightarrow> error option"
  db_addBlockData :: "Volume \<Rightarrow> error option"
  db_updateBlockData :: "Volume \<Rightarrow> error option"
  db_addStorageAttachment :: "StorageAttachment \<Rightarrow> error option"
  db_deleteStorageAttachment :: "string \<Rightarrow> error option"
  db_addPool :: "Pool \<Rightarrow> error option"
  db_updatePool :: "Pool \<Rightarrow> error option"
  db_deletePool :: "string \<Rightarrow> error option"
  db_addMappedIP :: "MappedIP \<Rightarrow> error option"

text \<open>
  \<open>append(l[:i], l[i+1:]...)\<close> at the first \<open>i\<close> with \<open>l[i] == id\<close>, then
  \<open>break\<close>: the first occurrence is removed.
\<close>

definition removeFirst :: "string \<Rightarrow> string list \<Rightarrow> string list" where
  "removeFirst ident l = remove1 ident l"

section \<open>Tenants and workloads\<close>




section \<open>Images\<close>

definition DeleteImage :: "string \<Rightarrow> Datastore \<Rightarrow> error option \<times> Datastore" where
  "DeleteImage ID ds =
     (case images ds ID of
        None \<Rightarrow> (Some ErrNoImage, ds)
      | Some img \<Rightarrow>
          if img_TenantID img \<noteq> [] \<and> tenants ds (img_TenantID img) = None
          then (Some ErrTenantNotFound, ds)
          else
            (let ds1 = (if img_TenantID img \<noteq> []
                        then (case tenants ds (img_TenantID img) of
                                None \<Rightarrow> ds
                              | Some t \<Rightarrow>
                                  ds\<lparr>tenants := (tenants ds)(img_TenantID img \<mapsto>
                                         t\<lparr>t_images := removeFirst ID (t_images t)\<rparr>)\<rparr>)
                        else ds);
                 ds2 = (if img_Visibility img = Internal
                        then ds1\<lparr>internalImages := removeFirst ID (internalImages ds1)\<rparr>
                        else ds1);
                 ds3 = (if img_Visibility img = Public
                        then ds2\<lparr>publicImages := removeFirst ID (publicImages ds2)\<rparr>
                        else ds2)
             in (None, ds3\<lparr>images := (images ds3)(ID := None)\<rparr>)))"

section \<open>Volumes and attachments\<close>






section \<open>External IP pools\<close>



definition CIDRMask :: "nat \<Rightarrow> ip4" where
  "CIDRMask ones = NOT (mask (32 - ones))"



definition parseError :: error where
  "parseError = ErrNew ''invalid CIDR address''"

















section \<open>Scenarios\<close>











section \<open>The pool indices\<close>






section \<open>Tenant addresses\<close>

text \<open>
  \<open>tenant.network\<close> is a \<open>map[uint32]map[uint32]bool\<close>. Reading a key that is missing
  (or reading through a nil inner map) gives the zero value; \<open>len\<close> of a nil map is 0.
\<close>

type_synonym hostmap = "ip4 \<rightharpoonup> bool"

definition hostsOf :: "(ip4 \<rightharpoonup> hostmap) \<Rightarrow> ip4 \<Rightarrow> hostmap" where
  "hostsOf net s = (case net s of None \<Rightarrow> Map.empty | Some m \<Rightarrow> m)"

definition len :: "hostmap option \<Rightarrow> nat" where
  "len v = (case v of None \<Rightarrow> 0 | Some m \<Rightarrow> card (dom m))"

text \<open>\<open>cleanTenantIPs\<close>, on the network map of the tenant (whose lock the caller holds).\<close>

fun cleanTenantIPs :: "(ip4 \<rightharpoonup> hostmap) \<Rightarrow> tenantIP list \<Rightarrow> (ip4 \<rightharpoonup> hostmap)" where
  "cleanTenantIPs net [] = net"
| "cleanTenantIPs net (IP # IPs) =
     (let net1 = (case net (ip_subnet IP) of
                    None \<Rightarrow> net
                  | Some m \<Rightarrow> net(ip_subnet IP \<mapsto> m(ip_host IP := None)));
          net2 = (if len (net1 (ip_subnet IP)) = 0 then net1(ip_subnet IP := None) else net1)
      in cleanTenantIPs net2 IPs)"

text \<open>
  \<open>activateSubnets\<close>: with a network controller, \<open>WaitForActive\<close> is called for the
  subnet of each address in turn, up to the first error.
\<close>

fun waitForAll :: "(ip4 \<times> nat \<Rightarrow> error option) \<Rightarrow> nat \<Rightarrow> ip4 list \<Rightarrow> error option" where
  "waitForAll mgr ones [] = None"
| "waitForAll mgr ones (ip # IPs) =
     (case mgr (ip AND CIDRMask ones, ones) of
        Some err \<Rightarrow> Some err
      | None \<Rightarrow> waitForAll mgr ones IPs)"

definition activateSubnets :: "tenant \<Rightarrow> ip4 list \<Rightarrow> error option" where
  "activateSubnets t IPs =
     (case CNCIctrl t of
        None \<Rightarrow> None
      | Some mgr \<Rightarrow> waitForAll mgr (nat (t_SubnetBits t)) IPs)"

definition getTenant :: "persistentStore \<Rightarrow> Datastore \<Rightarrow> string \<Rightarrow> tenant option \<times> error option" where
  "getTenant db ds ident =
     (case tenants ds ident of
        Some t \<Rightarrow> (Some t, None)
      | None \<Rightarrow> (let (t, err) = db_getTenant db ident
                 in (t, Wrapf err ''error getting tenant from database'')))"

definition GetTenant :: "persistentStore \<Rightarrow> Datastore \<Rightarrow> string \<Rightarrow> tenant option \<times> error option" where
  "GetTenant db ds ident =
     (let (t, err) = getTenant db ds ident
      in if err \<noteq> None \<or> t = None then (None, err) else (t, None))"

text \<open>The variables of the scan in \<open>AllocateTenantIPPool\<close>.\<close>

record scan =
  sc_net :: "ip4 \<rightharpoonup> hostmap"
  sc_addrs :: "ip4 list"
  sc_tenantAddrs :: "tenantIP list"
  sc_hostCount :: int

text \<open>
  The inner loop \<open>for host := 2; host < maxHosts-1; host++\<close> over the subnet at
  \<open>start\<close>. It returns from the function (\<open>Inl\<close>: the two results and the network map
  as left) once \<open>num\<close> addresses are accumulated, or falls through (\<open>Inr\<close>).
\<close>

function hostLoop ::
  "persistentStore \<Rightarrow> string \<Rightarrow> int \<Rightarrow> error option \<Rightarrow> int \<Rightarrow> ip4 \<Rightarrow> ip4 \<Rightarrow> int \<Rightarrow> scan
     \<Rightarrow> ((ip4 list option \<times> error option) \<times> (ip4 \<rightharpoonup> hostmap)) + scan" where
  "hostLoop db tenantID num retval maxHosts start subnetNum host st =
     (if host < maxHosts - 1
      then
        (if hostsOf (sc_net st) subnetNum (start + word_of_int host) \<noteq> Some True
         then
           (let addr = start + word_of_int host;
                st1 = st\<lparr>sc_net := (sc_net st)(subnetNum \<mapsto> (hostsOf (sc_net st) subnetNum)(addr \<mapsto> True)),
                        sc_addrs := sc_addrs st @ [addr],
                        sc_tenantAddrs := sc_tenantAddrs st @ [TenantIP subnetNum addr],
                        sc_hostCount := sc_hostCount st + 1\<rparr>
            in if sc_hostCount st1 = num
               then
                 (case db_claimTenantIPs db tenantID (sc_tenantAddrs st1) of
                    Some err \<Rightarrow>
                      Inl ((None, Some err), cleanTenantIPs (sc_net st1) (sc_tenantAddrs st1))
                  | None \<Rightarrow> Inl ((Some (sc_addrs st1), retval), sc_net st1))
               else hostLoop db tenantID num retval maxHosts start subnetNum (host + 1) st1)
         else hostLoop db tenantID num retval maxHosts start subnetNum (host + 1) st)
      else Inr st)"
  by pat_completeness auto
termination
  by (relation "measure (\<lambda>(db, tenantID, num, retval, maxHosts, start, subnetNum, host, st).
        nat (maxHosts - 1 - host))") auto

declare hostLoop.simps [simp del]

text \<open>
  The outer loop \<open>for { ... }\<close> over the subnets from \<open>start\<close> up to \<open>endAddr\<close>. The
  source gives no bound on its iterations: \<open>None\<close> is a run that does not return.
\<close>

partial_function (option) subnetLoop ::
  "persistentStore \<Rightarrow> string \<Rightarrow> int \<Rightarrow> error option \<Rightarrow> int \<Rightarrow> ip4 \<Rightarrow> ip4 \<Rightarrow> ip4 \<Rightarrow> scan
     \<Rightarrow> ((ip4 list option \<times> error option) \<times> (ip4 \<rightharpoonup> hostmap)) option" where
  "subnetLoop db tenantID num retval maxHosts netmask endAddr start st =
     (if start \<ge> endAddr
      then Some ((None, Some (ErrNew ''out of addrs'')),
                 cleanTenantIPs (sc_net st) (sc_tenantAddrs st))
      else
        (let subnetNum = start AND netmask;
             st1 = (if sc_net st subnetNum = None
                    then st\<lparr>sc_net := (sc_net st)(subnetNum \<mapsto> Map.empty)\<rparr>
                    else st)
         in case hostLoop db tenantID num retval maxHosts start subnetNum 2 st1 of
              Inl r \<Rightarrow> Some r
            | Inr st2 \<Rightarrow>
                subnetLoop db tenantID num retval maxHosts netmask endAddr
                  (start + word_of_int maxHosts) st2))"

text \<open>
  \<open>for k, v := range subnets { if len(v) < maxHosts { start = k; break } }\<close>, with
  \<open>keys\<close> the order in which the \<open>range\<close> visits the keys.
\<close>

fun pickStart :: "(ip4 \<rightharpoonup> hostmap) \<Rightarrow> int \<Rightarrow> ip4 list \<Rightarrow> ip4 \<Rightarrow> ip4" where
  "pickStart subnets maxHosts [] start = start"
| "pickStart subnets maxHosts (k # keys) start =
     (if int (len (subnets k)) < maxHosts then k else pickStart subnets maxHosts keys start)"

text \<open>
  What a call of \<open>AllocateTenantIPPool\<close> leaves: the two results, the value of the
  local variable \<open>retval\<close> after the deferred function has run, and the cache.
\<close>

record allocation =
  al_addrs :: "ip4 list option"
  al_err :: "error option"
  al_retval :: "error option"
  al_ds :: Datastore

text \<open>
  \<open>AllocateTenantIPPool\<close>. The results are unnamed, so \<open>return addrs, retval\<close> fixes
  them before the deferred function runs; that function unlocks and, with \<open>addrs\<close> not
  nil, assigns the answer of \<open>activateSubnets\<close> to \<open>retval\<close>. A tenant that is not
  cached makes \<open>tenant.SubnetBits\<close> or \<open>ds.tenants[tenantID].network\<close> dereference nil.
\<close>

definition AllocateTenantIPPool ::
  "persistentStore \<Rightarrow> ip4 list \<Rightarrow> Datastore \<Rightarrow> string \<Rightarrow> int \<Rightarrow> allocation option" where
  "AllocateTenantIPPool db keys ds tenantID num =
     (let retval = None
      in case GetTenant db ds tenantID of
           (t0, Some err) \<Rightarrow>
             Some \<lparr>al_addrs = None, al_err = Some err, al_retval = retval, al_ds = ds\<rparr>
         | (None, None) \<Rightarrow>
             Some \<lparr>al_addrs = None, al_err = Some Panic, al_retval = retval, al_ds = ds\<rparr>
         | (Some tenant, None) \<Rightarrow>
             if t_SubnetBits tenant < 0 \<or> 32 < t_SubnetBits tenant
             then Some \<lparr>al_addrs = None, al_err = Some parseError, al_retval = retval, al_ds = ds\<rparr>
             else
               (let ones = nat (t_SubnetBits tenant);
                    netmask = CIDRMask ones;
                    start = 0xAC100000 AND netmask;
                    endAddr = push_bit 20 (drop_bit 20 start + 1);
                    hostBits = 32 - ones;
                    maxHosts = (2 :: int) ^ hostBits
                in case tenants ds tenantID of
                     None \<Rightarrow>
                       Some \<lparr>al_addrs = None, al_err = Some Panic, al_retval = retval, al_ds = ds\<rparr>
                   | Some t \<Rightarrow>
                       (let subnets = network t;
                            start1 = pickStart subnets maxHosts keys start
                        in case subnetLoop db tenantID num retval maxHosts netmask endAddr start1
                                  \<lparr>sc_net = subnets, sc_addrs = [], sc_tenantAddrs = [],
                                   sc_hostCount = 0\<rparr> of
                             None \<Rightarrow> None
                           | Some ((addrs, err), net1) \<Rightarrow>
                               Some \<lparr>al_addrs = addrs, al_err = err,
                                     al_retval = (case addrs of
                                                    None \<Rightarrow> retval
                                                  | Some IPs \<Rightarrow> activateSubnets t IPs),
                                     al_ds = ds\<lparr>tenants := (tenants ds)(tenantID \<mapsto>
                                                       t\<lparr>network := net1\<rparr>)\<rparr>\<rparr>)))"

section \<open>The marks of a scan\<close>

text \<open>
  \<open>marks tas s\<close>: the hosts of subnet \<open>s\<close> on the claim list \<open>tas\<close>. \<open>overlay net0 tas\<close>:
  the network map \<open>net0\<close> with every address of the claim list marked in use.
  \<open>wellFormed\<close>: no subnet has an empty host map and every stored mark is \<open>true\<close>, as
  the allocator and the release path leave the map.
\<close>

definition marks :: "tenantIP list \<Rightarrow> ip4 \<Rightarrow> ip4 set" where
  "marks tas s = {a. TenantIP s a \<in> set tas}"

definition overlay :: "(ip4 \<rightharpoonup> hostmap) \<Rightarrow> tenantIP list \<Rightarrow> (ip4 \<rightharpoonup> hostmap)" where
  "overlay net0 tas =
     (\<lambda>s. if marks tas s = {} then net0 s
          else Some (\<lambda>a. if a \<in> marks tas s then Some True else hostsOf net0 s a))"

definition wellFormed :: "(ip4 \<rightharpoonup> hostmap) \<Rightarrow> bool" where
  "wellFormed net0 = (\<forall>s m. net0 s = Some m \<longrightarrow> m \<noteq> Map.empty \<and> (\<forall>a b. m a = Some b \<longrightarrow> b))"

definition scanInv :: "(ip4 \<rightharpoonup> hostmap) \<Rightarrow> scan \<Rightarrow> bool" where
  "scanInv net0 st =
     (sc_net st = overlay net0 (sc_tenantAddrs st)
      \<and> (\<forall>IP \<in> set (sc_tenantAddrs st). hostsOf net0 (ip_subnet IP) (ip_host IP) \<noteq> Some True)
      \<and> 0 \<le> sc_hostCount st)"

definition openInv :: "(ip4 \<rightharpoonup> hostmap) \<Rightarrow> ip4 \<Rightarrow> scan \<Rightarrow> bool" where
  "openInv net0 c st =
     (net0 c = None \<and> marks (sc_tenantAddrs st) c = {}
      \<and> sc_net st = (overlay net0 (sc_tenantAddrs st))(c \<mapsto> Map.empty)
      \<and> (\<forall>IP \<in> set (sc_tenantAddrs st). hostsOf net0 (ip_subnet IP) (ip_host IP) \<noteq> Some True)
      \<and> 0 \<le> sc_hostCount st)"

section \<open>Properties\<close>

subsection \<open>Usage history\<close>

lemma spaced_append:
  "spaced (us @ [u]) = (spaced us \<and> (us = [] \<or> Timestamp (last us) + 300000000000 \<le> Timestamp u))"
  by (induction us rule: spaced.induct) auto

lemma spaced_sorted: "spaced us \<Longrightarrow> sorted (map Timestamp us)"
proof (induction us rule: spaced.induct)
  case (1 a b us)
  then have "sorted (map Timestamp (b # us))" by simp
  moreover have "Timestamp a \<le> Timestamp b" using 1 by simp
  ultimately show ?case by (auto simp: order_trans)
qed simp_all

lemma last_update_conv:
  "us \<noteq> [] \<Longrightarrow> us[length us - 1 := u] = butlast us @ [u]"
  by (induction us rule: rev_induct) (auto simp: list_update_append)

lemma last_update_conv':
  "us \<noteq> [] \<Longrightarrow> us[length us - Suc 0 := u] = butlast us @ [u]"
  using last_update_conv by simp

lemma spaced_butlast: "spaced us \<Longrightarrow> spaced (butlast us)"
  by (induction us rule: rev_induct) (auto simp: spaced_append)

lemma spaced_replace_last:
  assumes "spaced us" "us \<noteq> []" "Timestamp u = Timestamp (last us)"
  shows "spaced (butlast us @ [u])"
proof -
  obtain vs v where us: "us = vs @ [v]" using assms(2) by (metis rev_exhaust)
  with assms show ?thesis by (auto simp: spaced_append)
qed

lemma Since_below:
  "MinutesBelowPeriod (Since sinceNow t) = (sinceNow - t < 300000000000)"
  by (auto simp: MinutesBelowPeriod_def Since_def tenantUsagePeriodMinutes_def)

text \<open>
  C8. With a clock that does not run backwards between the two readings, the history
  that \<open>updateTenantUsage\<close> maintains keeps consecutive samples at least five minutes
  apart and its timestamps non-decreasing: a zero delta changes nothing, a delta less
  than five minutes after the last sample replaces that sample and keeps its timestamp,
  and a delta five minutes or more after it (or with no sample yet) appends a sample.
\<close>

theorem updateTenantUsage_history:
  assumes sp: "spaced (history tu t)" and clk: "sinceNow \<le> now"
  shows "(let tu' = updateTenantUsage sinceNow now delta tenantID tu;
              h = history tu tenantID;
              new = \<lparr>VCPU = (if h = [] then 0 else VCPU (last h)) + VCPU delta,
                     Memory = (if h = [] then 0 else Memory (last h)) + Memory delta,
                     Disk = (if h = [] then 0 else Disk (last h)) + Disk delta,
                     Timestamp = now\<rparr>
          in spaced (history tu' t) \<and> sorted (map Timestamp (history tu' t))
           \<and> (VCPU delta = 0 \<and> Memory delta = 0 \<and> Disk delta = 0 \<longrightarrow> tu' = tu)
           \<and> (\<not> (VCPU delta = 0 \<and> Memory delta = 0 \<and> Disk delta = 0) \<and> h \<noteq> []
                \<and> sinceNow - Timestamp (last h) < 300000000000
               \<longrightarrow> tu' = tu(tenantID \<mapsto> butlast h @ [new\<lparr>Timestamp := Timestamp (last h)\<rparr>]))
           \<and> (\<not> (VCPU delta = 0 \<and> Memory delta = 0 \<and> Disk delta = 0)
                \<and> (h = [] \<or> 300000000000 \<le> sinceNow - Timestamp (last h))
               \<longrightarrow> tu' = tu(tenantID \<mapsto> h @ [new])))"
proof -
  let ?tu' = "updateTenantUsage sinceNow now delta tenantID tu"
  let ?h = "history tu tenantID"
  let ?z = "VCPU delta = 0 \<and> Memory delta = 0 \<and> Disk delta = 0"
  let ?new = "\<lparr>VCPU = (if ?h = [] then 0 else VCPU (last ?h)) + VCPU delta,
                     Memory = (if ?h = [] then 0 else Memory (last ?h)) + Memory delta,
                     Disk = (if ?h = [] then 0 else Disk (last ?h)) + Disk delta,
                     Timestamp = now\<rparr>"
  have noop: "?z \<Longrightarrow> ?tu' = tu"
    by (simp add: updateTenantUsage_def updateTenantUsageNeeded_def)
  have inplace: "\<not> ?z \<Longrightarrow> ?h \<noteq> [] \<Longrightarrow> sinceNow - Timestamp (last ?h) < 300000000000
      \<Longrightarrow> ?tu' = tu(tenantID \<mapsto> butlast ?h @ [?new\<lparr>Timestamp := Timestamp (last ?h)\<rparr>])"
    by (auto simp: updateTenantUsage_def updateTenantUsageNeeded_def history_def Let_def
        Since_below last_update_conv' split: option.splits)
  have app: "\<not> ?z \<Longrightarrow> (?h = [] \<or> 300000000000 \<le> sinceNow - Timestamp (last ?h))
      \<Longrightarrow> ?tu' = tu(tenantID \<mapsto> ?h @ [?new])"
    by (auto simp: updateTenantUsage_def updateTenantUsageNeeded_def history_def Let_def
        Since_below zeroUsage_def split: option.splits)
  have spc: "spaced (history ?tu' t)"
  proof (cases ?z)
    case True
    then show ?thesis using noop sp by simp
  next
    case nz: False
    show ?thesis
    proof (cases "t = tenantID")
      case False
      have "history ?tu' t = history tu t"
        using False by (auto simp: updateTenantUsage_def history_def Let_def)
      then show ?thesis using sp by simp
    next
      case True
      show ?thesis
      proof (cases "?h \<noteq> [] \<and> sinceNow - Timestamp (last ?h) < 300000000000")
        case True
        then have "history ?tu' tenantID = butlast ?h @ [?new\<lparr>Timestamp := Timestamp (last ?h)\<rparr>]"
          using inplace nz by (simp add: history_def)
        moreover have "spaced (butlast ?h @ [?new\<lparr>Timestamp := Timestamp (last ?h)\<rparr>])"
          using sp True \<open>t = tenantID\<close> by (intro spaced_replace_last) auto
        ultimately show ?thesis using \<open>t = tenantID\<close> by simp
      next
        case False
        then have c: "?h = [] \<or> 300000000000 \<le> sinceNow - Timestamp (last ?h)" by auto
        then have "history ?tu' tenantID = ?h @ [?new]"
          using app nz by (simp add: history_def)
        moreover have "spaced (?h @ [?new])"
          using sp c clk \<open>t = tenantID\<close> by (auto simp: spaced_append)
        ultimately show ?thesis using \<open>t = tenantID\<close> by simp
      qed
    qed
  qed
  show ?thesis
    unfolding Let_def using spc spaced_sorted[OF spc] noop inplace app by blast
qed

theorem updateTenantUsage_history_witness:
  "spaced (history (updateTenantUsage 360000000000 360000000001 (zeroUsage\<lparr>VCPU := 5\<rparr>) ''t1''
             [''t1'' \<mapsto> [zeroUsage]]) ''t1'')
   \<and> updateTenantUsage 360000000000 360000000001 (zeroUsage\<lparr>VCPU := 5\<rparr>) ''t1''
             [''t1'' \<mapsto> [zeroUsage]]
       = [''t1'' \<mapsto> [zeroUsage, zeroUsage\<lparr>VCPU := 5, Timestamp := 360000000001\<rparr>]]"
proof -
  have h1: "spaced (history [''t1'' \<mapsto> [zeroUsage]] ''t1'')"
    by (simp add: history_def)
  have h2: "(360000000000::int) \<le> 360000000001"
    by simp
  show ?thesis
    using updateTenantUsage_history [OF h1 h2, where delta = "zeroUsage\<lparr>VCPU := 5\<rparr>" and tenantID = "''t1''"]
    by (simp add: Let_def history_def zeroUsage_def)
qed

subsection \<open>Workloads\<close>

lemma Wrapf_None [simp]: "Wrapf None msg = None"
  by (simp add: Wrapf_def)

lemma Wrapf_eq_None [simp]: "(Wrapf e msg = None) = (e = None)"
  by (auto simp: Wrapf_def split: option.splits error.splits)



subsection \<open>Attachments\<close>




subsection \<open>Write-through order\<close>


lemma Wrapf_Some [simp]: "Wrapf (Some e) msg \<noteq> None"
  by (simp add: Wrapf_def split: error.splits)

lemma Wrapf_Some_ex [simp]: "\<exists>y. Wrapf (Some e) msg = Some y"
  by (simp add: Wrapf_def split: error.splits)






subsection \<open>Mapping an external IP\<close>














subsection \<open>Duplicate subnets and addresses\<close>



















end
